theory Spec2Isabelle
  imports Complex_Main
begin

section \<open>JavaScript values used by the front end\<close>

text \<open>
  A JavaScript number is a double. Every finite double is a rational, so a finite number
  is modelled by its exact value; the three non-finite values are constructors of their
  own. Negative zero is not distinguished from zero (nothing below depends on its sign).
\<close>

datatype number = Finite rat | NaN | PosInfinity | NegInfinity

text \<open>Truthiness of a number, as \<^verbatim>\<open>if (x)\<close> tests it: zero and NaN are falsy.\<close>

fun truthy_number :: "number \<Rightarrow> bool" where
  "truthy_number (Finite x) = (x \<noteq> 0)"
| "truthy_number NaN = False"
| "truthy_number PosInfinity = True"
| "truthy_number NegInfinity = True"

definition digit_char :: "nat \<Rightarrow> char" where
  "digit_char d = ''0123456789'' ! (d mod 10)"

text \<open>The decimal digits of a natural number; \<open>0\<close> prints as \<open>''0''\<close>.\<close>

fun decimal :: "nat \<Rightarrow> string" where
  "decimal n = (if n < 10 then [digit_char n] else decimal (n div 10) @ [digit_char (n mod 10)])"

declare decimal.simps [simp del]

text \<open>
  \<^verbatim>\<open>Number.prototype.toFixed(f)\<close> for a finite \<open>x\<close> with \<open>\<bar>x\<bar> < 10^21\<close>, step by step as
  ECMAScript gives it: the sign is split off, \<open>n\<close> is the integer with \<open>n / 10^f\<close> closest to
  \<open>x\<close> (the larger one on a tie), its digits are padded with zeros on the left to
  \<open>f + 1\<close> characters and the point is put \<open>f\<close> characters from the right.
\<close>

definition toFixed_plain :: "nat \<Rightarrow> rat \<Rightarrow> string" where
  "toFixed_plain f x =
     (let s = (if x < 0 then ''-'' else '''');
          ax = \<bar>x\<bar>;
          n = nat \<lfloor>ax * 10 ^ f + 1 / 2\<rfloor>;
          m = decimal n;
          m' = (if f \<noteq> 0
                then (let m2 = (if length m \<le> f then replicate (f + 1 - length m) CHR ''0'' @ m else m);
                          k = length m2
                      in take (k - f) m2 @ ''.'' @ drop (k - f) m2)
                else m)
      in s @ m')"

text \<open>
  \<^verbatim>\<open>toFixed\<close> on any number. For a non-finite value and for \<open>\<bar>x\<bar> \<ge> 10^21\<close> ECMAScript
  returns \<^verbatim>\<open>Number::toString(x)\<close>; that built-in (shortest round-trip digits, exponent
  notation) is a parameter \<open>ToString\<close> of the model.
\<close>

definition toFixed :: "(number \<Rightarrow> string) \<Rightarrow> nat \<Rightarrow> number \<Rightarrow> string" where
  "toFixed ToString f v =
     (case v of
        Finite x \<Rightarrow> if \<bar>x\<bar> \<ge> 10 ^ 21 then ToString v else toFixed_plain f x
      | _ \<Rightarrow> ToString v)"

text \<open>A \<^verbatim>\<open>File\<close> handle: its name, its size in bytes and its MIME type.\<close>

record jsfile =
  file_name :: string
  file_size :: nat
  file_type :: string

section \<open>Studio page: the uploaded-file list (\<^verbatim>\<open>pages/Studio.tsx\<close>)\<close>

record AudioFile =
  af_id :: string
  af_file :: jsfile
  af_name :: string
  af_size :: string

record studio_state =
  audioFiles :: "AudioFile list"
  isPlaying :: bool
  currentFile :: "AudioFile option"
  volume :: rat
  isProcessing :: bool
  uploadProgress :: nat

text \<open>
  \<^verbatim>\<open>Math.random().toString(36).substr(2, 9)\<close>. The string \<^verbatim>\<open>Math.random().toString(36)\<close> is
  what the runtime draws (a parameter: \<open>draw\<close>); \<^verbatim>\<open>substr(2, 9)\<close> drops its first two
  characters and keeps at most nine.
\<close>

definition random_id :: "string \<Rightarrow> string" where
  "random_id draw = take 9 (drop 2 draw)"

text \<open>
  The record \<^verbatim>\<open>onDrop\<close> builds for one file. \<^verbatim>\<open>file.size / (1024 * 1024)\<close> is exact in
  doubles (a division by a power of two).
\<close>

definition mkAudioFile :: "(number \<Rightarrow> string) \<Rightarrow> string \<Rightarrow> jsfile \<Rightarrow> AudioFile" where
  "mkAudioFile ToString draw file =
     \<lparr> af_id = random_id draw,
       af_file = file,
       af_name = file_name file,
       af_size = toFixed ToString 2 (Finite (of_nat (file_size file) / (1024 * 1024))) @ '' MB'' \<rparr>"

text \<open>
  \<^verbatim>\<open>acceptedFiles.forEach\<close>: one \<^verbatim>\<open>setAudioFiles((prev) => [...prev, audioFile])\<close> per file,
  in order. \<open>rnd\<close> is the stream of draws of the random generator and \<open>k\<close> the number
  of draws made so far; the loop returns the list and the new count.
\<close>

fun onDrop_forEach ::
  "(number \<Rightarrow> string) \<Rightarrow> (nat \<Rightarrow> string) \<Rightarrow> nat \<Rightarrow> jsfile list \<Rightarrow> AudioFile list \<Rightarrow> AudioFile list \<times> nat" where
  "onDrop_forEach ToString rnd k [] prev = (prev, k)"
| "onDrop_forEach ToString rnd k (file # files) prev =
     onDrop_forEach ToString rnd (Suc k) files (prev @ [mkAudioFile ToString (rnd k) file])"

definition onDrop ::
  "(number \<Rightarrow> string) \<Rightarrow> (nat \<Rightarrow> string) \<Rightarrow> nat \<Rightarrow> jsfile list \<Rightarrow> studio_state \<Rightarrow> studio_state \<times> nat" where
  "onDrop ToString rnd k acceptedFiles st =
     (let (fs, k') = onDrop_forEach ToString rnd k acceptedFiles (audioFiles st)
      in (st\<lparr>audioFiles := fs\<rparr>, k'))"

text \<open>
  \<^verbatim>\<open>removeFile(id)\<close>: the list keeps the records whose id differs; the selection and the
  playback flag are reset when \<^verbatim>\<open>currentFile?.id === id\<close>, a test on the state the
  handler was called in.
\<close>

definition removeFile :: "string \<Rightarrow> studio_state \<Rightarrow> studio_state" where
  "removeFile i st =
     (let st1 = st\<lparr>audioFiles := filter (\<lambda>file. af_id file \<noteq> i) (audioFiles st)\<rparr>
      in if (case currentFile st of None \<Rightarrow> False | Some c \<Rightarrow> af_id c = i)
         then st1\<lparr>currentFile := None, isPlaying := False\<rparr>
         else st1)"

text \<open>A run of drop events, each handled by \<^verbatim>\<open>onDrop\<close> on the state the previous one left.\<close>

fun onDrop_seq ::
  "(number \<Rightarrow> string) \<Rightarrow> (nat \<Rightarrow> string) \<Rightarrow> nat \<Rightarrow> jsfile list list \<Rightarrow> studio_state \<Rightarrow> studio_state \<times> nat" where
  "onDrop_seq ToString rnd k [] st = (st, k)"
| "onDrop_seq ToString rnd k (batch # batches) st =
     (let (st', k') = onDrop ToString rnd k batch st in onDrop_seq ToString rnd k' batches st')"

text \<open>The state the page starts in (the \<^verbatim>\<open>useState\<close> initial values; \<^verbatim>\<open>0.8\<close> as a double).\<close>

definition initial_studio :: studio_state where
  "initial_studio =
     \<lparr> audioFiles = [], isPlaying = False, currentFile = None,
       volume = 3602879701896397 / 4503599627370496, isProcessing = False, uploadProgress = 0 \<rparr>"

section \<open>Mixing console: tracks (\<^verbatim>\<open>pages/Mixing.tsx\<close>)\<close>

record EQ =
  low :: rat
  mid :: rat
  high :: rat

record Effects =
  reverb :: rat
  delay :: rat
  compression :: rat

record Track =
  t_id :: string
  t_name :: string
  t_color :: string
  t_volume :: rat
  t_pan :: rat
  t_muted :: bool
  t_solo :: bool
  t_eq :: EQ
  t_effects :: Effects

text \<open>\<^verbatim>\<open>Partial<Track>\<close>: every property may be absent.\<close>

record TrackUpdates =
  u_id :: "string option"
  u_name :: "string option"
  u_color :: "string option"
  u_volume :: "rat option"
  u_pan :: "rat option"
  u_muted :: "bool option"
  u_solo :: "bool option"
  u_eq :: "EQ option"
  u_effects :: "Effects option"

text \<open>\<^verbatim>\<open>{ ...track, ...updates }\<close>: a property of \<open>updates\<close> that is present replaces the track's.\<close>

definition spread :: "Track \<Rightarrow> TrackUpdates \<Rightarrow> Track" where
  "spread track updates =
     \<lparr> t_id = (case u_id updates of None \<Rightarrow> t_id track | Some v \<Rightarrow> v),
       t_name = (case u_name updates of None \<Rightarrow> t_name track | Some v \<Rightarrow> v),
       t_color = (case u_color updates of None \<Rightarrow> t_color track | Some v \<Rightarrow> v),
       t_volume = (case u_volume updates of None \<Rightarrow> t_volume track | Some v \<Rightarrow> v),
       t_pan = (case u_pan updates of None \<Rightarrow> t_pan track | Some v \<Rightarrow> v),
       t_muted = (case u_muted updates of None \<Rightarrow> t_muted track | Some v \<Rightarrow> v),
       t_solo = (case u_solo updates of None \<Rightarrow> t_solo track | Some v \<Rightarrow> v),
       t_eq = (case u_eq updates of None \<Rightarrow> t_eq track | Some v \<Rightarrow> v),
       t_effects = (case u_effects updates of None \<Rightarrow> t_effects track | Some v \<Rightarrow> v) \<rparr>"

definition updateTrack :: "string \<Rightarrow> TrackUpdates \<Rightarrow> Track list \<Rightarrow> Track list" where
  "updateTrack i updates prev =
     map (\<lambda>track. if t_id track = i then spread track updates else track) prev"

definition resetTrack :: "string \<Rightarrow> Track list \<Rightarrow> Track list" where
  "resetTrack i prev =
     updateTrack i
       \<lparr> u_id = None, u_name = None, u_color = None,
         u_volume = Some 75, u_pan = Some 0,
         u_muted = None, u_solo = None,
         u_eq = Some \<lparr> low = 0, mid = 0, high = 0 \<rparr>,
         u_effects = Some \<lparr> reverb = 0, delay = 0, compression = 0 \<rparr> \<rparr>
       prev"

text \<open>The four tracks the console starts with.\<close>

definition initial_tracks :: "Track list" where
  "initial_tracks =
     [ \<lparr> t_id = ''1'', t_name = ''Drums'', t_color = ''#ef4444'', t_volume = 75, t_pan = 0,
         t_muted = False, t_solo = False, t_eq = \<lparr> low = 0, mid = 0, high = 0 \<rparr>,
         t_effects = \<lparr> reverb = 0, delay = 0, compression = 30 \<rparr> \<rparr>,
       \<lparr> t_id = ''2'', t_name = ''Bass'', t_color = ''#8b5cf6'', t_volume = 65, t_pan = - 10,
         t_muted = False, t_solo = False, t_eq = \<lparr> low = 5, mid = - 2, high = - 5 \<rparr>,
         t_effects = \<lparr> reverb = 10, delay = 0, compression = 50 \<rparr> \<rparr>,
       \<lparr> t_id = ''3'', t_name = ''Guitar'', t_color = ''#10b981'', t_volume = 70, t_pan = 25,
         t_muted = False, t_solo = False, t_eq = \<lparr> low = - 3, mid = 3, high = 2 \<rparr>,
         t_effects = \<lparr> reverb = 25, delay = 15, compression = 20 \<rparr> \<rparr>,
       \<lparr> t_id = ''4'', t_name = ''Vocals'', t_color = ''#f59e0b'', t_volume = 80, t_pan = 0,
         t_muted = False, t_solo = False, t_eq = \<lparr> low = - 5, mid = 2, high = 8 \<rparr>,
         t_effects = \<lparr> reverb = 35, delay = 20, compression = 40 \<rparr> \<rparr> ]"

section \<open>HTTP requests as the front end issues them\<close>

datatype form_value = FileValue jsfile | StringValue string

text \<open>\<^verbatim>\<open>FormData\<close>: the fields in the order \<^verbatim>\<open>append\<close> added them.\<close>

type_synonym FormData = "(string \<times> form_value) list"

definition append :: "string \<Rightarrow> form_value \<Rightarrow> FormData \<Rightarrow> FormData" where
  "append field v formData = formData @ [(field, v)]"

record request =
  req_method :: string
  req_url :: string
  req_data :: FormData
  req_headers :: "(string \<times> string) list"
  req_responseType :: "string option"
  req_timeout :: "nat option"

text \<open>
  What comes back: no response at all, or a status with the body as axios hands it over
  in \<^verbatim>\<open>response.data\<close>.
\<close>

datatype 'a reply = TransportFailure | Response nat 'a

datatype axios_error = NetworkError | BadStatus nat

text \<open>
  The promise of \<^verbatim>\<open>axios.post\<close>: it resolves with the body for a status accepted by the
  default \<^verbatim>\<open>validateStatus\<close> (\<open>200 \<le> status < 300\<close>) and rejects otherwise.
\<close>

definition settle :: "'a reply \<Rightarrow> axios_error + 'a" where
  "settle r =
     (case r of
        TransportFailure \<Rightarrow> Inl NetworkError
      | Response status body \<Rightarrow>
          if 200 \<le> status \<and> status < 300 then Inr body else Inl (BadStatus status))"

text \<open>
  How axios turns \<^verbatim>\<open>baseURL\<close> and \<^verbatim>\<open>url\<close> into the address it calls: an absolute
  \<^verbatim>\<open>url\<close> (an optional scheme, then \<^verbatim>\<open>//\<close>) is used as it is; any other is appended to the
  base, with one slash between them (\<^verbatim>\<open>combineURLs\<close>: at most two trailing slashes of the
  base and all leading slashes of the path are dropped).
\<close>

definition is_letter :: "char \<Rightarrow> bool" where
  "is_letter c = (c \<in> set ''abcdefghijklmnopqrstuvwxyzABCDEFGHIJKLMNOPQRSTUVWXYZ'')"

definition is_scheme_char :: "char \<Rightarrow> bool" where
  "is_scheme_char c = (is_letter c \<or> c \<in> set ''0123456789+-.'')"

definition isAbsoluteURL :: "string \<Rightarrow> bool" where
  "isAbsoluteURL url =
     (take 2 url = ''//'' \<or>
      (case url of
         [] \<Rightarrow> False
       | c # cs \<Rightarrow> is_letter c \<and> take 3 (dropWhile is_scheme_char cs) = ''://''))"

definition combineURLs :: "string \<Rightarrow> string \<Rightarrow> string" where
  "combineURLs baseURL relativeURL =
     (if relativeURL = [] then baseURL
      else (let n = length baseURL;
                base = (if 2 \<le> n \<and> drop (n - 2) baseURL = ''//'' then take (n - 2) baseURL
                        else if 1 \<le> n \<and> drop (n - 1) baseURL = ''/'' then take (n - 1) baseURL
                        else baseURL)
            in base @ ''/'' @ dropWhile (\<lambda>c. c = CHR ''/'') relativeURL))"

definition buildFullPath :: "string option \<Rightarrow> string \<Rightarrow> string" where
  "buildFullPath baseURL requestedURL =
     (case baseURL of
        None \<Rightarrow> requestedURL
      | Some b \<Rightarrow> if b \<noteq> [] \<and> \<not> isAbsoluteURL requestedURL then combineURLs b requestedURL
                  else requestedURL)"

text \<open>
  The origin of an absolute URL: the scheme and the authority, that is everything before
  the first slash that follows \<^verbatim>\<open>://\<close>. It names the backend host a request goes to.
\<close>

definition url_origin :: "string \<Rightarrow> string" where
  "url_origin url =
     (let scheme = takeWhile (\<lambda>c. c \<noteq> CHR '':'') url;
          rest = drop (length scheme + 3) url
      in scheme @ ''://'' @ takeWhile (\<lambda>c. c \<noteq> CHR ''/'') rest)"

section \<open>The API client (\<^verbatim>\<open>services/api.ts\<close>)\<close>

text \<open>
  \<^verbatim>\<open>process.env.REACT_APP_BACKEND_URL || 'http://localhost:8000'\<close>: the variable is \<open>None\<close>
  when unset; unset and empty are both falsy.
\<close>

definition API_BASE_URL :: "string option \<Rightarrow> string" where
  "API_BASE_URL env =
     (case env of
        None \<Rightarrow> ''http://localhost:8000''
      | Some v \<Rightarrow> if v = [] then ''http://localhost:8000'' else v)"

text \<open>
  \<^verbatim>\<open>api.post(url, formData, config)\<close> on the instance made by \<^verbatim>\<open>axios.create\<close> with that base
  URL and a timeout of 30000 ms; the call's own \<^verbatim>\<open>Content-Type\<close> replaces the instance's.
\<close>

definition api_post :: "string option \<Rightarrow> string \<Rightarrow> FormData \<Rightarrow> string option \<Rightarrow> request" where
  "api_post env url formData responseType =
     \<lparr> req_method = ''POST'',
       req_url = buildFullPath (Some (API_BASE_URL env)) url,
       req_data = formData,
       req_headers = [(''Content-Type'', ''multipart/form-data'')],
       req_responseType = responseType,
       req_timeout = Some 30000 \<rparr>"

record TransitionSettings =
  style :: string
  duration :: "number option"
  crossfade :: "number option"

record StyleTransferSettings =
  target_style :: string
  intensity :: "number option"
  preserve_vocals :: "bool option"

definition analyzeTrack_request :: "string option \<Rightarrow> jsfile \<Rightarrow> request" where
  "analyzeTrack_request env file =
     (let formData = append ''file'' (FileValue file) []
      in api_post env ''/api/analyze/track'' formData None)"

text \<open>
  The form of \<^verbatim>\<open>createTransition\<close>. \<^verbatim>\<open>if (settings.duration)\<close> is a test of truthiness: an
  absent duration, zero and NaN all fail it. \<open>ToString\<close> is \<^verbatim>\<open>Number.prototype.toString\<close>.
\<close>

definition createTransition_formData ::
  "(number \<Rightarrow> string) \<Rightarrow> jsfile \<Rightarrow> jsfile \<Rightarrow> TransitionSettings \<Rightarrow> FormData" where
  "createTransition_formData ToString file1 file2 settings =
     (let formData = append ''file1'' (FileValue file1) [];
          formData = append ''file2'' (FileValue file2) formData;
          formData = append ''style'' (StringValue (style settings)) formData
      in case duration settings of
           None \<Rightarrow> formData
         | Some d \<Rightarrow> if truthy_number d
                     then append ''duration'' (StringValue (ToString d)) formData
                     else formData)"

definition createTransition_request ::
  "(number \<Rightarrow> string) \<Rightarrow> string option \<Rightarrow> jsfile \<Rightarrow> jsfile \<Rightarrow> TransitionSettings \<Rightarrow> request" where
  "createTransition_request ToString env file1 file2 settings =
     api_post env ''/api/transition/create''
       (createTransition_formData ToString file1 file2 settings) (Some ''blob'')"

definition transferStyle_formData ::
  "(number \<Rightarrow> string) \<Rightarrow> jsfile \<Rightarrow> StyleTransferSettings \<Rightarrow> FormData" where
  "transferStyle_formData ToString file settings =
     (let formData = append ''file'' (FileValue file) [];
          formData = append ''target_style'' (StringValue (target_style settings)) formData
      in case intensity settings of
           None \<Rightarrow> formData
         | Some x \<Rightarrow> if truthy_number x
                     then append ''intensity'' (StringValue (ToString x)) formData
                     else formData)"

definition transferStyle_request ::
  "(number \<Rightarrow> string) \<Rightarrow> string option \<Rightarrow> jsfile \<Rightarrow> StyleTransferSettings \<Rightarrow> request" where
  "transferStyle_request ToString env file settings =
     api_post env ''/api/style/transfer'' (transferStyle_formData ToString file settings) (Some ''blob'')"

text \<open>
  Each of the three functions awaits its one request and returns \<^verbatim>\<open>response.data\<close>; a
  rejected request propagates to the caller. \<open>net\<close> is the network: what the request
  is answered with.
\<close>

definition analyzeTrack ::
  "(request \<Rightarrow> 'a reply) \<Rightarrow> string option \<Rightarrow> jsfile \<Rightarrow> axios_error + 'a" where
  "analyzeTrack net env file = settle (net (analyzeTrack_request env file))"

definition createTransition ::
  "(request \<Rightarrow> 'a reply) \<Rightarrow> (number \<Rightarrow> string) \<Rightarrow> string option \<Rightarrow> jsfile \<Rightarrow> jsfile \<Rightarrow> TransitionSettings
     \<Rightarrow> axios_error + 'a" where
  "createTransition net ToString env file1 file2 settings =
     settle (net (createTransition_request ToString env file1 file2 settings))"

definition transferStyle ::
  "(request \<Rightarrow> 'a reply) \<Rightarrow> (number \<Rightarrow> string) \<Rightarrow> string option \<Rightarrow> jsfile \<Rightarrow> StyleTransferSettings
     \<Rightarrow> axios_error + 'a" where
  "transferStyle net ToString env file settings =
     settle (net (transferStyle_request ToString env file settings))"

section \<open>The audio processor component (\<^verbatim>\<open>components/AudioProcessor.tsx\<close>)\<close>

record AudioAnalysis =
  beats :: "number list"
  key :: string
  scale :: string
  tempo :: number
  energy :: number
  spectral_centroid :: number

record blob =
  blob_parts :: "string list"
  blob_type :: string

record marker =
  time :: number
  color :: string
  position :: string

text \<open>
  The body of a reply to the analysis request, as \<^verbatim>\<open>response.data\<close> holds it: the empty
  string of a response without content, \<^verbatim>\<open>null\<close> (the JSON text \<^verbatim>\<open>null\<close>), or an analysis.
  A reply to the transition request is read with \<^verbatim>\<open>responseType: 'blob'\<close>: its body is
  always a blob, an empty one when the response has no content.
\<close>

datatype analysis_body = EmptyString | JsonNull | JsonAnalysis AudioAnalysis

text \<open>
  What \<^verbatim>\<open>setAnalysis(response.data)\<close> leaves in the state, as far as the component can
  tell: the empty string and \<^verbatim>\<open>null\<close> are both falsy and render nothing.
\<close>

fun stored :: "analysis_body \<Rightarrow> AudioAnalysis option" where
  "stored EmptyString = None"
| "stored JsonNull = None"
| "stored (JsonAnalysis a) = Some a"

text \<open>
  The component's state: the \<^verbatim>\<open>useState\<close> cells, and whether the \<^verbatim>\<open>wavesurfer\<close> ref holds
  a widget.
\<close>

record ap_state =
  file1 :: "jsfile option"
  file2 :: "jsfile option"
  analysis :: "AudioAnalysis option"
  transitionStyle :: string
  loading :: bool
  error :: "string option"
  ap_isPlaying :: bool
  ap_volume :: number
  wavesurfer :: bool

text \<open>
  What lies outside the component: the network for either endpoint, the browser's
  \<^verbatim>\<open>URL.createObjectURL\<close>, and the waveform widget, whose \<^verbatim>\<open>addMarker\<close> and \<^verbatim>\<open>load\<close> may
  throw (or reject).
\<close>

record environment =
  net_analysis :: "request \<Rightarrow> analysis_body reply"
  net_audio :: "request \<Rightarrow> blob reply"
  createObjectURL :: "blob \<Rightarrow> string"
  addMarker_throws :: "marker \<Rightarrow> bool"
  load_throws :: "string \<Rightarrow> bool"

text \<open>
  A handler is modelled by what it does, in program order: the state setters it calls
  and the calls it makes to the outside. The state after the handler is the state it
  was called in with the setters applied.
\<close>

datatype event =
    SetLoading bool
  | SetError "string option"
  | SetAnalysis "AudioAnalysis option"
  | Post request
  | AddMarker marker
  | ConsoleError
  | CreateObjectURL blob
  | WsLoad string
  | Download string string

fun apply_event :: "event \<Rightarrow> ap_state \<Rightarrow> ap_state" where
  "apply_event (SetLoading b) st = st\<lparr>loading := b\<rparr>"
| "apply_event (SetError e) st = st\<lparr>error := e\<rparr>"
| "apply_event (SetAnalysis a) st = st\<lparr>analysis := a\<rparr>"
| "apply_event (Post r) st = st"
| "apply_event (AddMarker m) st = st"
| "apply_event ConsoleError st = st"
| "apply_event (CreateObjectURL b) st = st"
| "apply_event (WsLoad u) st = st"
| "apply_event (Download u n) st = st"

definition run :: "event list \<Rightarrow> ap_state \<Rightarrow> ap_state" where
  "run evs st = fold apply_event evs st"

text \<open>
  \<^verbatim>\<open>axios.post\<close> of the component: the global axios, which has no base URL and no timeout.
\<close>

definition axios_post :: "string \<Rightarrow> FormData \<Rightarrow> string option \<Rightarrow> request" where
  "axios_post url formData responseType =
     \<lparr> req_method = ''POST'',
       req_url = buildFullPath None url,
       req_data = formData,
       req_headers = [(''Content-Type'', ''multipart/form-data'')],
       req_responseType = responseType,
       req_timeout = None \<rparr>"

text \<open>
  \<^verbatim>\<open>response.data.beats.forEach(beat => wavesurfer.current?.addMarker(...))\<close>: the events,
  and whether a call threw (which ends the loop).
\<close>

fun addMarkers :: "environment \<Rightarrow> number list \<Rightarrow> event list \<times> bool" where
  "addMarkers env [] = ([], False)"
| "addMarkers env (beat # bs) =
     (let m = \<lparr> time = beat, color = ''#ff0000'', position = ''top'' \<rparr>
      in if addMarker_throws env m then ([AddMarker m], True)
         else (let (evs, threw) = addMarkers env bs in (AddMarker m # evs, threw)))"

definition handleAnalyze_request :: "jsfile \<Rightarrow> request" where
  "handleAnalyze_request f =
     (let formData = append ''file'' (FileValue f) []
      in axios_post ''http://localhost:8000/analyze/track'' formData None)"

text \<open>
  The \<^verbatim>\<open>try\<close> block of \<^verbatim>\<open>handleAnalyze\<close>: its events and whether it threw. The result is
  stored before \<^verbatim>\<open>wavesurfer.current && response.data.beats\<close> is evaluated: with a widget
  present, reading \<^verbatim>\<open>beats\<close> of \<^verbatim>\<open>null\<close> throws, the empty string has no \<^verbatim>\<open>beats\<close>, and the
  beats of an analysis are drawn.
\<close>

definition handleAnalyze_try :: "environment \<Rightarrow> ap_state \<Rightarrow> jsfile \<Rightarrow> event list \<times> bool" where
  "handleAnalyze_try env st f =
     (let req = handleAnalyze_request f
      in case settle (net_analysis env req) of
           Inl e \<Rightarrow> ([Post req], True)
         | Inr data \<Rightarrow>
             (let (evs, threw) =
                    (if wavesurfer st
                     then (case data of
                             EmptyString \<Rightarrow> ([], False)
                           | JsonNull \<Rightarrow> ([], True)
                           | JsonAnalysis a \<Rightarrow> addMarkers env (beats a))
                     else ([], False))
              in ([Post req, SetAnalysis (stored data)] @ evs, threw)))"

definition handleAnalyze_events :: "environment \<Rightarrow> ap_state \<Rightarrow> event list" where
  "handleAnalyze_events env st =
     (case file1 st of
        None \<Rightarrow> []
      | Some f \<Rightarrow>
          (let (evs, threw) = handleAnalyze_try env st f
           in [SetLoading True, SetError None] @ evs
              @ (if threw then [SetError (Some ''Failed to analyze audio''), ConsoleError] else [])
              @ [SetLoading False]))"

definition handleAnalyze :: "environment \<Rightarrow> ap_state \<Rightarrow> ap_state" where
  "handleAnalyze env st = run (handleAnalyze_events env st) st"

definition handleCreateTransition_request :: "jsfile \<Rightarrow> jsfile \<Rightarrow> string \<Rightarrow> request" where
  "handleCreateTransition_request f1 f2 s =
     (let formData = append ''file1'' (FileValue f1) [];
          formData = append ''file2'' (FileValue f2) formData;
          formData = append ''style'' (StringValue s) formData
      in axios_post ''http://localhost:8000/transition/create'' formData (Some ''blob''))"

text \<open>
  The \<^verbatim>\<open>try\<close> block of \<^verbatim>\<open>handleCreateTransition\<close>: an object URL is made of the blob, the
  widget loads it, and the download is started; a \<^verbatim>\<open>load\<close> that throws skips the download.
\<close>

definition handleCreateTransition_try ::
  "environment \<Rightarrow> ap_state \<Rightarrow> jsfile \<Rightarrow> jsfile \<Rightarrow> event list \<times> bool" where
  "handleCreateTransition_try env st f1 f2 =
     (let req = handleCreateTransition_request f1 f2 (transitionStyle st)
      in case settle (net_audio env req) of
           Inl e \<Rightarrow> ([Post req], True)
         | Inr b \<Rightarrow>
             (let url = createObjectURL env b
              in if wavesurfer st \<and> load_throws env url
                 then ([Post req, CreateObjectURL b, WsLoad url], True)
                 else ([Post req, CreateObjectURL b]
                       @ (if wavesurfer st then [WsLoad url] else [])
                       @ [Download url ''transition.wav''], False)))"

definition handleCreateTransition_events :: "environment \<Rightarrow> ap_state \<Rightarrow> event list" where
  "handleCreateTransition_events env st =
     (case (file1 st, file2 st) of
        (Some f1, Some f2) \<Rightarrow>
          (let (evs, threw) = handleCreateTransition_try env st f1 f2
           in [SetLoading True, SetError None] @ evs
              @ (if threw then [SetError (Some ''Failed to create transition''), ConsoleError] else [])
              @ [SetLoading False])
      | _ \<Rightarrow> [])"

definition handleCreateTransition :: "environment \<Rightarrow> ap_state \<Rightarrow> ap_state" where
  "handleCreateTransition env st = run (handleCreateTransition_events env st) st"

text \<open>What the component shows: the two buttons' \<^verbatim>\<open>disabled\<close> and the conditional blocks.\<close>

definition analyze_disabled :: "ap_state \<Rightarrow> bool" where
  "analyze_disabled st = (file1 st = None \<or> loading st)"

definition transition_disabled :: "ap_state \<Rightarrow> bool" where
  "transition_disabled st = (file1 st = None \<or> file2 st = None \<or> loading st)"

definition render_progress :: "ap_state \<Rightarrow> bool" where
  "render_progress st = loading st"

text \<open>\<^verbatim>\<open>{error && ...}\<close>: nothing for \<^verbatim>\<open>null\<close> and for the empty string.\<close>

definition render_error :: "ap_state \<Rightarrow> string list" where
  "render_error st =
     (case error st of None \<Rightarrow> [] | Some e \<Rightarrow> if e = [] then [] else [e])"

definition render_analysis :: "(number \<Rightarrow> string) \<Rightarrow> ap_state \<Rightarrow> string list" where
  "render_analysis ToString st =
     (case analysis st of
        None \<Rightarrow> []
      | Some a \<Rightarrow>
          [ ''Analysis Results'',
            ''Key: '' @ key a @ '' '' @ scale a,
            ''Tempo: '' @ toFixed ToString 1 (tempo a) @ '' BPM'',
            ''Energy: '' @ toFixed ToString 2 (energy a),
            ''Spectral Centroid: '' @ toFixed ToString 2 (spectral_centroid a) @ '' Hz'' ])"

text \<open>The state the component mounts in; the effect has created the widget.\<close>

definition initial_state :: ap_state where
  "initial_state =
     \<lparr> file1 = None, file2 = None, analysis = None, transitionStyle = ''smooth'',
       loading = False, error = None, ap_isPlaying = False, ap_volume = Finite 1,
       wavesurfer = True \<rparr>"

section \<open>The mock service layer (\<^verbatim>\<open>mocks/handlers.ts\<close>)\<close>

text \<open>The canned analysis; \<^verbatim>\<open>0.8\<close> is the double nearest to it.\<close>

definition mock_analysis :: AudioAnalysis where
  "mock_analysis =
     \<lparr> beats = [Finite (1 / 2), Finite 1, Finite (3 / 2), Finite 2],
       key = ''C'',
       scale = ''major'',
       tempo = Finite 120,
       energy = Finite (3602879701896397 / 4503599627370496),
       spectral_centroid = Finite 2000 \<rparr>"

definition mock_blob :: blob where
  "mock_blob = \<lparr> blob_parts = [''mock audio data''], blob_type = ''audio/wav'' \<rparr>"

text \<open>
  The two handlers intercept a POST to their address and answer it; any other request
  goes on to the network that was there.
\<close>

definition mock_analyze_handler :: "(request \<Rightarrow> analysis_body reply) \<Rightarrow> request \<Rightarrow> analysis_body reply" where
  "mock_analyze_handler net req =
     (if req_method req = ''POST'' \<and> req_url req = ''http://localhost:8000/analyze/track''
      then Response 200 (JsonAnalysis mock_analysis)
      else net req)"

definition mock_transition_handler :: "(request \<Rightarrow> blob reply) \<Rightarrow> request \<Rightarrow> blob reply" where
  "mock_transition_handler net req =
     (if req_method req = ''POST'' \<and> req_url req = ''http://localhost:8000/transition/create''
      then Response 200 mock_blob
      else net req)"

definition handlers :: "environment \<Rightarrow> environment" where
  "handlers env =
     env\<lparr> net_analysis := mock_analyze_handler (net_analysis env),
          net_audio := mock_transition_handler (net_audio env) \<rparr>"

section \<open>Observing a handler's events\<close>

text \<open>The values written to the loading flag, the requests sent, and the flag after each event.\<close>

fun loading_writes :: "event list \<Rightarrow> bool list" where
  "loading_writes [] = []"
| "loading_writes (SetLoading b # evs) = b # loading_writes evs"
| "loading_writes (ev # evs) = loading_writes evs"

fun posts :: "event list \<Rightarrow> request list" where
  "posts [] = []"
| "posts (Post r # evs) = r # posts evs"
| "posts (ev # evs) = posts evs"

fun loading_trace :: "event list \<Rightarrow> ap_state \<Rightarrow> bool list" where
  "loading_trace [] st = []"
| "loading_trace (ev # evs) st = loading (apply_event ev st) # loading_trace evs (apply_event ev st)"

section \<open>Sample inputs\<close>

text \<open>
  A stand-in for \<^verbatim>\<open>Number.prototype.toString\<close> where a closed term needs one: it prints
  the non-finite values as JavaScript does and a finite value rounded to an integer.
\<close>

definition ToString_sample :: "number \<Rightarrow> string" where
  "ToString_sample v =
     (case v of Finite x \<Rightarrow> toFixed_plain 0 x | NaN \<Rightarrow> ''NaN''
      | PosInfinity \<Rightarrow> ''Infinity'' | NegInfinity \<Rightarrow> ''-Infinity'')"

definition song :: jsfile where
  "song = \<lparr> file_name = ''song.mp3'', file_size = 5242880, file_type = ''audio/mpeg'' \<rparr>"

definition intro_wav :: jsfile where
  "intro_wav = \<lparr> file_name = ''intro.wav'', file_size = 1048576, file_type = ''audio/wav'' \<rparr>"

text \<open>Two draws of the random generator that differ only after their eleventh character.\<close>

definition colliding_draws :: "nat \<Rightarrow> string" where
  "colliding_draws n = (if n = 0 then ''0.k3j9x2m1qa7'' else ''0.k3j9x2m1qb2'')"

definition distinct_draws :: "nat \<Rightarrow> string" where
  "distinct_draws n = (if n = 0 then ''0.k3j9x2m1qa7'' else ''0.7tq0c4hd2zx'')"

text \<open>A backend that answers every request with status 500, and a widget that works.\<close>

definition server_error_env :: environment where
  "server_error_env =
     \<lparr> net_analysis = (\<lambda>req. Response 500 EmptyString),
       net_audio = (\<lambda>req. Response 500 \<lparr> blob_parts = [], blob_type = [] \<rparr>),
       createObjectURL = (\<lambda>b. ''blob:http://localhost:3000/1''),
       addMarker_throws = (\<lambda>m. False),
       load_throws = (\<lambda>u. False) \<rparr>"

text \<open>The mock service layer in front of it, with a widget whose \<^verbatim>\<open>addMarker\<close> throws.\<close>

definition no_markers_env :: environment where
  "no_markers_env = handlers (server_error_env\<lparr> addMarker_throws := (\<lambda>m. True) \<rparr>)"

definition one_file_state :: ap_state where
  "one_file_state = initial_state\<lparr> file1 := Some song \<rparr>"

definition two_files_state :: ap_state where
  "two_files_state = initial_state\<lparr> file1 := Some song, file2 := Some intro_wav \<rparr>"

text \<open>A Studio page with two uploaded files, the first of them selected and playing.\<close>

definition song_record :: AudioFile where
  "song_record = mkAudioFile ToString_sample (distinct_draws 0) song"

definition intro_record :: AudioFile where
  "intro_record = mkAudioFile ToString_sample (distinct_draws 1) intro_wav"

definition playing_studio :: studio_state where
  "playing_studio =
     initial_studio\<lparr> audioFiles := [song_record, intro_record],
                     currentFile := Some song_record, isPlaying := True \<rparr>"

text \<open>
  A Studio page after a drop of two files whose draws collide: two records with one
  identifier, the first of them selected and playing.
\<close>

definition song_twin :: AudioFile where
  "song_twin = mkAudioFile ToString_sample (colliding_draws 0) song"

definition intro_twin :: AudioFile where
  "intro_twin = mkAudioFile ToString_sample (colliding_draws 1) intro_wav"

definition colliding_studio :: studio_state where
  "colliding_studio =
     initial_studio\<lparr> audioFiles := [song_twin, intro_twin],
                     currentFile := Some song_twin, isPlaying := True \<rparr>"

text \<open>A backend that answers the analysis request with status 200 and the body \<^verbatim>\<open>null\<close>.\<close>

definition null_body_env :: environment where
  "null_body_env = server_error_env\<lparr> net_analysis := (\<lambda>req. Response 200 JsonNull) \<rparr>"

definition zero_duration :: TransitionSettings where
  "zero_duration = \<lparr> style = ''smooth'', duration = Some (Finite 0), crossfade = None \<rparr>"

definition production_url :: string where
  "production_url = ''https://api.sonetra.example''"

section \<open>The mixing console: resetting a track\<close>

text \<open>
  C10. Resetting a track sets its volume to 75, its pan to 0, its three EQ bands and its
  three effect levels to 0; its identifier, name, colour, muted flag and solo flag stay
  as they were, every other track stays as it was, and the list keeps its length and
  its order.
\<close>

theorem resetTrack_frame:
  assumes "n < length tracks"
  shows "length (resetTrack i tracks) = length tracks
       \<and> map t_id (resetTrack i tracks) = map t_id tracks
       \<and> (let old = tracks ! n; new = resetTrack i tracks ! n in
            if t_id old = i
            then t_volume new = 75 \<and> t_pan new = 0
               \<and> low (t_eq new) = 0 \<and> mid (t_eq new) = 0 \<and> high (t_eq new) = 0
               \<and> reverb (t_effects new) = 0 \<and> delay (t_effects new) = 0
               \<and> compression (t_effects new) = 0
               \<and> t_id new = t_id old \<and> t_name new = t_name old \<and> t_color new = t_color old
               \<and> t_muted new = t_muted old \<and> t_solo new = t_solo old
            else new = old)"
  using assms by (simp add: resetTrack_def updateTrack_def spread_def Let_def)

theorem resetTrack_frame_witness:
  "(1 :: nat) < length initial_tracks
   \<and> length (resetTrack ''2'' initial_tracks) = 4
   \<and> map t_id (resetTrack ''2'' initial_tracks) = [''1'', ''2'', ''3'', ''4'']
   \<and> t_volume (resetTrack ''2'' initial_tracks ! 1) = 75
   \<and> t_pan (resetTrack ''2'' initial_tracks ! 1) = 0
   \<and> compression (t_effects (resetTrack ''2'' initial_tracks ! 1)) = 0
   \<and> t_name (resetTrack ''2'' initial_tracks ! 1) = ''Bass''
   \<and> resetTrack ''2'' initial_tracks ! 0 = initial_tracks ! 0"
proof -
  have h1: "(1 :: nat) < length initial_tracks" and h0: "(0 :: nat) < length initial_tracks"
    by (simp_all add: initial_tracks_def)
  have i1: "t_id (initial_tracks ! 1) = ''2''" and n1: "t_name (initial_tracks ! 1) = ''Bass''"
    and i0: "t_id (initial_tracks ! 0) \<noteq> ''2''"
    and ids: "map t_id initial_tracks = [''1'', ''2'', ''3'', ''4'']"
    and len: "length initial_tracks = 4"
    by (simp_all add: initial_tracks_def)
  show ?thesis
    using h1 resetTrack_frame [OF h1, of "''2''"] resetTrack_frame [OF h0, of "''2''"] i1 n1 i0 ids len
    by (simp add: Let_def)
qed

section \<open>The Studio file list: uploads and removal\<close>

lemma upt_shift: "[k..<Suc (k + n)] = k # [Suc k..<Suc (k + n)]"
  by (simp add: upt_conv_Cons del: upt_Suc)

lemma onDrop_forEach_eq:
  "onDrop_forEach T rnd k files prev =
     (prev @ map (\<lambda>(j, f). mkAudioFile T (rnd j) f) (zip [k..<k + length files] files),
      k + length files)"
proof (induction files arbitrary: k prev)
  case Nil
  then show ?case by simp
next
  case (Cons f fs)
  show ?case
    using Cons.IH [of "Suc k" "prev @ [mkAudioFile T (rnd k) f]"]
    by (simp add: upt_shift del: upt_Suc)
qed

lemma onDrop_forEach_append:
  "onDrop_forEach T rnd k (xs @ ys) prev =
     onDrop_forEach T rnd (snd (onDrop_forEach T rnd k xs prev)) ys
       (fst (onDrop_forEach T rnd k xs prev))"
  by (induction xs arbitrary: k prev) simp_all

lemma onDrop_seq_concat:
  "onDrop_seq T rnd k batches st = onDrop T rnd k (concat batches) st"
proof (induction batches arbitrary: k st)
  case Nil
  then show ?case by (simp add: onDrop_def)
next
  case (Cons b bs)
  show ?case
    by (simp add: Cons.IH onDrop_def onDrop_forEach_append split: prod.splits)
qed

lemma onDrop_audioFiles:
  "audioFiles (fst (onDrop T rnd k files st)) =
     audioFiles st @ map (\<lambda>(j, f). mkAudioFile T (rnd j) f) (zip [k..<k + length files] files)"
  by (simp add: onDrop_def onDrop_forEach_eq)

lemma onDrop_frame:
  "isPlaying (fst (onDrop T rnd k files st)) = isPlaying st
   \<and> currentFile (fst (onDrop T rnd k files st)) = currentFile st"
  by (simp add: onDrop_def split: prod.splits)

lemma new_names:
  "length js = length fs \<Longrightarrow>
     map (af_name \<circ> (\<lambda>(j, f). mkAudioFile T (rnd j) f)) (zip js fs) = map file_name fs"
  by (induction js fs rule: list_induct2) (simp_all add: mkAudioFile_def)

lemma new_files:
  "length js = length fs \<Longrightarrow>
     map (af_file \<circ> (\<lambda>(j, f). mkAudioFile T (rnd j) f)) (zip js fs) = fs"
  by (induction js fs rule: list_induct2) (simp_all add: mkAudioFile_def)

lemma new_ids:
  "length js = length fs \<Longrightarrow>
     map (af_id \<circ> (\<lambda>(j, f). mkAudioFile T (rnd j) f)) (zip js fs)
       = map (\<lambda>j. random_id (rnd j)) js"
  by (induction js fs rule: list_induct2) (simp_all add: mkAudioFile_def)

text \<open>
  C6. An accepted drop adds one record per dropped file to the end of the list, in the
  order of the files; the display name of each new record is the name of its file, and
  the records that were in the list are still there, unchanged and in order.
\<close>

theorem onDrop_appends:
  "length (audioFiles (fst (onDrop T rnd k files st))) = length (audioFiles st) + length files
   \<and> take (length (audioFiles st)) (audioFiles (fst (onDrop T rnd k files st))) = audioFiles st
   \<and> map af_name (drop (length (audioFiles st)) (audioFiles (fst (onDrop T rnd k files st))))
       = map file_name files
   \<and> map af_file (drop (length (audioFiles st)) (audioFiles (fst (onDrop T rnd k files st))))
       = files"
  by (simp add: onDrop_audioFiles new_names new_files)

text \<open>Two files dropped on a list that already holds two records.\<close>

theorem onDrop_appends_witness:
  "map af_name (audioFiles (fst (onDrop ToString_sample distinct_draws 0 [song, intro_wav] playing_studio)))
     = [''song.mp3'', ''intro.wav'', ''song.mp3'', ''intro.wav'']
   \<and> take (length (audioFiles playing_studio))
        (audioFiles (fst (onDrop ToString_sample distinct_draws 0 [song, intro_wav] playing_studio)))
     = [song_record, intro_record]"
proof -
  let ?new = "audioFiles (fst (onDrop ToString_sample distinct_draws 0 [song, intro_wav] playing_studio))"
  let ?n = "length (audioFiles playing_studio)"
  have old: "audioFiles playing_studio = [song_record, intro_record]"
    by (simp add: playing_studio_def)
  have names: "map af_name [song_record, intro_record] = [''song.mp3'', ''intro.wav'']"
    "map file_name [song, intro_wav] = [''song.mp3'', ''intro.wav'']"
    by (simp_all add: song_record_def intro_record_def mkAudioFile_def song_def intro_wav_def)
  note t = onDrop_appends [of ToString_sample distinct_draws 0 "[song, intro_wav]" playing_studio]
  have a: "take ?n ?new = audioFiles playing_studio"
    using t by blast
  have b: "map af_name (drop ?n ?new) = map file_name [song, intro_wav]"
    using t by blast
  have "map af_name ?new = map af_name (take ?n ?new @ drop ?n ?new)"
    by (simp only: append_take_drop_id)
  then have "map af_name ?new = map af_name (audioFiles playing_studio) @ map file_name [song, intro_wav]"
    by (simp only: map_append a b)
  then show ?thesis
    using a by (simp only: old names) simp
qed

text \<open>
  C2, as stated, fails: the identifier is nine characters cut from a random draw, and
  nothing compares it with the identifiers in the list. Two uploads of one file whose
  draws agree on those nine characters get the same identifier.
\<close>

theorem identical_uploads_can_collide:
  "\<not> distinct (map af_id (audioFiles
       (fst (onDrop_seq ToString_sample colliding_draws 0 [[song], [song]] initial_studio))))"
  by (simp add: onDrop_def mkAudioFile_def random_id_def colliding_draws_def initial_studio_def)

text \<open>
  C2, amended. For every run of uploads, repeated uploads of one file included, each
  uploaded file gets a record of its own at the end of the list (none is merged or
  rejected, and the earlier records are kept); the identifiers of the new records are
  the random draws cut to nine characters, so the identifiers in the list are pairwise
  distinct exactly when the earlier identifiers and those cut draws are.
\<close>

theorem uploads_independent:
  "length (audioFiles (fst (onDrop_seq T rnd k batches st)))
     = length (audioFiles st) + length (concat batches)
   \<and> take (length (audioFiles st)) (audioFiles (fst (onDrop_seq T rnd k batches st)))
     = audioFiles st
   \<and> map af_file (drop (length (audioFiles st)) (audioFiles (fst (onDrop_seq T rnd k batches st))))
     = concat batches
   \<and> map af_id (audioFiles (fst (onDrop_seq T rnd k batches st)))
     = map af_id (audioFiles st) @ map (\<lambda>j. random_id (rnd j)) [k..<k + length (concat batches)]
   \<and> distinct (map af_id (audioFiles (fst (onDrop_seq T rnd k batches st))))
     = distinct (map af_id (audioFiles st)
                 @ map (\<lambda>j. random_id (rnd j)) [k..<k + length (concat batches)])"
  by (simp add: onDrop_seq_concat onDrop_audioFiles new_files new_ids del: distinct_append)

text \<open>The same file uploaded twice, with draws that differ: two records, two identifiers.\<close>

theorem uploads_independent_witness:
  "length (audioFiles (fst (onDrop_seq ToString_sample distinct_draws 0 [[song], [song]] initial_studio))) = 2
   \<and> map af_file (audioFiles (fst (onDrop_seq ToString_sample distinct_draws 0 [[song], [song]] initial_studio)))
       = [song, song]
   \<and> distinct (map af_id (audioFiles
       (fst (onDrop_seq ToString_sample distinct_draws 0 [[song], [song]] initial_studio))))"
proof -
  let ?new = "audioFiles (fst (onDrop_seq ToString_sample distinct_draws 0 [[song], [song]] initial_studio))"
  have r: "[0..<0 + length (concat [[song], [song]])] = [0, Suc 0]"
    by (simp add: upt_rec)
  have d: "random_id (distinct_draws 0) \<noteq> random_id (distinct_draws (Suc 0))"
    by (simp add: random_id_def distinct_draws_def)
  have e: "audioFiles initial_studio = []"
    by (simp add: initial_studio_def)
  note t = uploads_independent [of ToString_sample distinct_draws 0 "[[song], [song]]" initial_studio]
  have len: "length ?new = length (audioFiles initial_studio) + length (concat [[song], [song]])"
    using t by blast
  have files: "map af_file (drop (length (audioFiles initial_studio)) ?new) = concat [[song], [song]]"
    using t by blast
  have ids: "map af_id ?new = map af_id (audioFiles initial_studio)
      @ map (\<lambda>j. random_id (distinct_draws j)) [0..<0 + length (concat [[song], [song]])]"
    using t by blast
  have "length ?new = 2"
    using len by (simp add: e del: onDrop_seq.simps)
  moreover have "map af_file ?new = [song, song]"
    using files by (simp add: e del: onDrop_seq.simps)
  moreover have "distinct (map af_id ?new)"
    unfolding ids r e using d by simp
  ultimately show ?thesis by blast
qed

lemma filter_distinct_id:
  "distinct (map g xs) \<Longrightarrow> n < length xs \<Longrightarrow> g (xs ! n) = i \<Longrightarrow>
     filter (\<lambda>x. g x \<noteq> i) xs = take n xs @ drop (Suc n) xs"
proof (induction xs arbitrary: n)
  case Nil
  then show ?case by simp
next
  case (Cons x xs)
  show ?case
  proof (cases n)
    case 0
    with Cons.prems have "g x = i" "g x \<notin> g ` set xs" by simp_all
    then have "\<forall>y \<in> set xs. g y \<noteq> i" by (metis imageI)
    then have "filter (\<lambda>y. g y \<noteq> i) xs = xs" by (simp add: filter_id_conv)
    with 0 Cons.prems show ?thesis by simp
  next
    case (Suc m)
    with Cons.prems have m: "m < length xs" "g (xs ! m) = i" "distinct (map g xs)" by simp_all
    then have "i \<in> g ` set xs" by (metis nth_mem imageI)
    with Cons.prems have "g x \<noteq> i" by auto
    with Suc Cons.IH [OF m(3) m(1) m(2)] show ?thesis by simp
  qed
qed

text \<open>
  C7, as stated, fails on a list in which two records bear one identifier, which a drop
  whose draws collide produces. With the first of the two selected and playing, removing
  the second by its identifier removes the first as well, clears the selection and stops
  playback, although the selected record is another record than the removed one.
\<close>

theorem removal_hits_identifier_twin:
  "audioFiles (fst (onDrop ToString_sample colliding_draws 0 [song, intro_wav] initial_studio))
     = audioFiles colliding_studio
   \<and> song_twin \<noteq> intro_twin
   \<and> currentFile colliding_studio = Some song_twin
   \<and> isPlaying colliding_studio
   \<and> audioFiles (removeFile (af_id intro_twin) colliding_studio) = []
   \<and> currentFile (removeFile (af_id intro_twin) colliding_studio) = None
   \<and> \<not> isPlaying (removeFile (af_id intro_twin) colliding_studio)"
proof -
  have ids: "af_id song_twin = ''k3j9x2m1q''" "af_id intro_twin = ''k3j9x2m1q''"
    by (simp_all add: song_twin_def intro_twin_def mkAudioFile_def random_id_def colliding_draws_def)
  have names: "af_name song_twin = ''song.mp3''" "af_name intro_twin = ''intro.wav''"
    by (simp_all add: song_twin_def intro_twin_def mkAudioFile_def song_def intro_wav_def)
  have ne: "song_twin \<noteq> intro_twin"
    using names by auto
  have drop: "audioFiles (fst (onDrop ToString_sample colliding_draws 0 [song, intro_wav] initial_studio))
     = audioFiles colliding_studio"
    by (simp add: onDrop_def colliding_studio_def song_twin_def intro_twin_def initial_studio_def)
  have st: "audioFiles colliding_studio = [song_twin, intro_twin]"
    "currentFile colliding_studio = Some song_twin" "isPlaying colliding_studio"
    by (simp_all add: colliding_studio_def)
  show ?thesis
    using ne drop by (simp add: removeFile_def Let_def st ids)
qed

text \<open>
  C7, amended. Removing by identifier removes every record that bears the identifier and
  leaves the records with another identifier as they were, in their order; where the
  identifiers in the list are pairwise distinct that is exactly the one record, and an
  identifier that no record bears removes nothing. When the selected record bears the
  identifier the selection is cleared and playback stops, and otherwise the selection
  and the playback flag are as before. Nothing else changes.
\<close>

theorem removeFile_effect:
  "audioFiles (removeFile i st) = filter (\<lambda>file. af_id file \<noteq> i) (audioFiles st)
   \<and> i \<notin> set (map af_id (audioFiles (removeFile i st)))
   \<and> (distinct (map af_id (audioFiles st)) \<and> n < length (audioFiles st)
        \<and> af_id (audioFiles st ! n) = i \<longrightarrow>
        audioFiles (removeFile i st) = take n (audioFiles st) @ drop (Suc n) (audioFiles st))
   \<and> (i \<notin> set (map af_id (audioFiles st)) \<longrightarrow> audioFiles (removeFile i st) = audioFiles st)
   \<and> (currentFile (removeFile i st), isPlaying (removeFile i st))
       = (if map_option af_id (currentFile st) = Some i then (None, False)
          else (currentFile st, isPlaying st))
   \<and> volume (removeFile i st) = volume st
   \<and> isProcessing (removeFile i st) = isProcessing st
   \<and> uploadProgress (removeFile i st) = uploadProgress st"
proof -
  have l: "audioFiles (removeFile i st) = filter (\<lambda>file. af_id file \<noteq> i) (audioFiles st)"
    by (simp add: removeFile_def Let_def)
  have d: "distinct (map af_id (audioFiles st)) \<and> n < length (audioFiles st)
        \<and> af_id (audioFiles st ! n) = i \<longrightarrow>
        audioFiles (removeFile i st) = take n (audioFiles st) @ drop (Suc n) (audioFiles st)"
    using filter_distinct_id [of af_id "audioFiles st" n i] by (simp add: l)
  have a: "i \<notin> set (map af_id (audioFiles st)) \<longrightarrow> audioFiles (removeFile i st) = audioFiles st"
    by (auto simp: l filter_id_conv)
  have r: "(currentFile (removeFile i st), isPlaying (removeFile i st))
       = (if map_option af_id (currentFile st) = Some i then (None, False)
          else (currentFile st, isPlaying st))
   \<and> volume (removeFile i st) = volume st
   \<and> isProcessing (removeFile i st) = isProcessing st
   \<and> uploadProgress (removeFile i st) = uploadProgress st"
    by (cases "currentFile st") (auto simp: removeFile_def Let_def)
  have m: "i \<notin> set (map af_id (audioFiles (removeFile i st)))"
    by (auto simp: l)
  show ?thesis using l d a r m by blast
qed

text \<open>
  On a playing page whose two records have distinct identifiers: removing the selected
  record, removing the other one, and removing an identifier that no record bears.
\<close>

theorem removeFile_effect_witness:
  "distinct (map af_id (audioFiles playing_studio))
   \<and> (0 :: nat) < length (audioFiles playing_studio)
   \<and> af_id (audioFiles playing_studio ! 0) = ''k3j9x2m1q''
   \<and> audioFiles (removeFile ''k3j9x2m1q'' playing_studio) = [intro_record]
   \<and> currentFile (removeFile ''k3j9x2m1q'' playing_studio) = None
   \<and> \<not> isPlaying (removeFile ''k3j9x2m1q'' playing_studio)
   \<and> audioFiles (removeFile ''7tq0c4hd2'' playing_studio) = [song_record]
   \<and> currentFile (removeFile ''7tq0c4hd2'' playing_studio) = Some song_record
   \<and> isPlaying (removeFile ''7tq0c4hd2'' playing_studio)
   \<and> ''zzzzzzzzz'' \<notin> set (map af_id (audioFiles playing_studio))
   \<and> audioFiles (removeFile ''zzzzzzzzz'' playing_studio) = [song_record, intro_record]"
proof -
  have ids: "af_id song_record = ''k3j9x2m1q''" "af_id intro_record = ''7tq0c4hd2''"
    by (simp_all add: song_record_def intro_record_def mkAudioFile_def random_id_def
        distinct_draws_def)
  have st: "audioFiles playing_studio = [song_record, intro_record]"
    "currentFile playing_studio = Some song_record" "isPlaying playing_studio"
    by (simp_all add: playing_studio_def)
  show ?thesis
    using removeFile_effect [of "''k3j9x2m1q''" playing_studio 0]
      removeFile_effect [of "''7tq0c4hd2''" playing_studio "Suc 0"]
      removeFile_effect [of "''zzzzzzzzz''" playing_studio 0]
    by (simp add: ids st)
qed

section \<open>The audio processor: what a handler's events do\<close>

lemma run_Nil: "run [] st = st"
  by (simp add: run_def)

lemma run_Cons: "run (ev # evs) st = run evs (apply_event ev st)"
  by (simp add: run_def)

lemma run_append: "run (xs @ ys) st = run ys (run xs st)"
  by (simp add: run_def)

lemma loading_writes_append: "loading_writes (xs @ ys) = loading_writes xs @ loading_writes ys"
  by (induction xs rule: loading_writes.induct) simp_all

lemma posts_append: "posts (xs @ ys) = posts xs @ posts ys"
  by (induction xs rule: posts.induct) simp_all

lemma loading_trace_append:
  "loading_trace (xs @ ys) s = loading_trace xs s @ loading_trace ys (run xs s)"
  by (induction xs arbitrary: s) (simp_all add: run_Nil run_Cons)

text \<open>Events that never write the flag leave it set.\<close>

lemma quiet_trace:
  "loading_writes evs = [] \<Longrightarrow> loading s \<Longrightarrow>
     loading_trace evs s = replicate (length evs) True \<and> loading (run evs s)"
proof (induction evs arbitrary: s)
  case Nil
  then show ?case by (simp add: run_Nil)
next
  case (Cons ev evs)
  then show ?case by (cases ev) (simp_all add: run_Cons)
qed

text \<open>A handler that sets the flag first, resets it last and never writes it in between.\<close>

lemma cycle:
  assumes "evs = SetLoading True # inner @ [SetLoading False]" and "loading_writes inner = []"
  shows "hd evs = SetLoading True
       \<and> loading_writes evs = [True, False]
       \<and> loading_trace evs st = replicate (length evs - 1) True @ [False]
       \<and> posts evs = posts inner
       \<and> \<not> loading (run evs st)"
  using assms quiet_trace [of inner "st\<lparr>loading := True\<rparr>"]
  by (simp add: loading_trace_append loading_writes_append posts_append run_Cons run_append run_Nil)

lemma addMarkers_silent:
  "addMarkers env bs = (evs, threw) \<Longrightarrow>
     run evs st = st \<and> loading_writes evs = [] \<and> posts evs = []"
proof (induction bs arbitrary: evs threw)
  case Nil
  then show ?case by (simp add: run_Nil)
next
  case (Cons b bs)
  then show ?case
    by (auto simp: Let_def run_Nil run_Cons split: if_splits prod.splits)
qed

lemma try_run:
  "handleAnalyze_try env st f = (evs, threw) \<Longrightarrow>
   run evs s =
     (case settle (net_analysis env (handleAnalyze_request f)) of
        Inl e \<Rightarrow> s | Inr d \<Rightarrow> s\<lparr>analysis := stored d\<rparr>)"
  by (auto simp: handleAnalyze_try_def Let_def run_Nil run_Cons run_append
      split: sum.splits analysis_body.splits prod.splits if_splits dest: addMarkers_silent)

lemma try_writes:
  "handleAnalyze_try env st f = (evs, threw) \<Longrightarrow>
   loading_writes evs = [] \<and> posts evs = [handleAnalyze_request f]"
  by (auto simp: handleAnalyze_try_def Let_def loading_writes_append posts_append
      split: sum.splits analysis_body.splits prod.splits if_splits dest: addMarkers_silent)

lemma try_threw:
  "isl (settle (net_analysis env (handleAnalyze_request f))) \<Longrightarrow> snd (handleAnalyze_try env st f)"
  by (auto simp: handleAnalyze_try_def Let_def split: sum.splits)

text \<open>The state \<^verbatim>\<open>handleAnalyze\<close> leaves, setter by setter.\<close>

lemma handleAnalyze_result:
  assumes "file1 st = Some f"
  shows "handleAnalyze env st =
     (let s1 = st\<lparr>loading := True, error := None\<rparr>;
          s2 = (case settle (net_analysis env (handleAnalyze_request f)) of
                  Inl e \<Rightarrow> s1 | Inr d \<Rightarrow> s1\<lparr>analysis := stored d\<rparr>);
          s3 = (if snd (handleAnalyze_try env st f)
                then s2\<lparr>error := Some ''Failed to analyze audio''\<rparr> else s2)
      in s3\<lparr>loading := False\<rparr>)"
proof -
  obtain evs threw where t: "handleAnalyze_try env st f = (evs, threw)"
    by (cases "handleAnalyze_try env st f")
  show ?thesis
    using assms t try_run [OF t]
    by (simp add: handleAnalyze_def handleAnalyze_events_def run_Cons run_append run_Nil Let_def)
qed

lemma handleAnalyze_events_shape:
  assumes "file1 st = Some f"
  shows "\<exists>inner. handleAnalyze_events env st = SetLoading True # inner @ [SetLoading False]
           \<and> loading_writes inner = [] \<and> posts inner = [handleAnalyze_request f]"
proof -
  obtain evs threw where t: "handleAnalyze_try env st f = (evs, threw)"
    by (cases "handleAnalyze_try env st f")
  show ?thesis
    using assms t try_writes [OF t]
    by (simp add: handleAnalyze_events_def loading_writes_append posts_append)
qed

lemma transition_try_writes:
  "handleCreateTransition_try env st f1 f2 = (evs, threw) \<Longrightarrow>
   loading_writes evs = [] \<and> posts evs = [handleCreateTransition_request f1 f2 (transitionStyle st)]"
  by (auto simp: handleCreateTransition_try_def Let_def split: sum.splits option.splits if_splits)

lemma handleCreateTransition_events_shape:
  assumes "file1 st = Some f1" and "file2 st = Some f2"
  shows "\<exists>inner. handleCreateTransition_events env st = SetLoading True # inner @ [SetLoading False]
           \<and> loading_writes inner = []
           \<and> posts inner = [handleCreateTransition_request f1 f2 (transitionStyle st)]"
proof -
  obtain evs threw where t: "handleCreateTransition_try env st f1 f2 = (evs, threw)"
    by (cases "handleCreateTransition_try env st f1 f2")
  show ?thesis
    using assms t transition_try_writes [OF t]
    by (simp add: handleCreateTransition_events_def loading_writes_append posts_append)
qed

text \<open>
  C8. The loading flag goes Idle, Loading, settled, Idle. A run of the analysis workflow
  (a file is selected) or of the transition workflow (both files are selected) writes the
  flag twice: true as its first action and false as its last, whatever the one request
  it sends is answered with and whatever is thrown. After every action but the last the
  flag is set, after the last it is clear, and exactly one request is sent.
\<close>

theorem loading_flag_cycle:
  "(file1 st \<noteq> None \<longrightarrow>
      hd (handleAnalyze_events env st) = SetLoading True
    \<and> loading_writes (handleAnalyze_events env st) = [True, False]
    \<and> loading_trace (handleAnalyze_events env st) st
        = replicate (length (handleAnalyze_events env st) - 1) True @ [False]
    \<and> length (posts (handleAnalyze_events env st)) = 1
    \<and> \<not> loading (handleAnalyze env st))
 \<and> (file1 st \<noteq> None \<and> file2 st \<noteq> None \<longrightarrow>
      hd (handleCreateTransition_events env st) = SetLoading True
    \<and> loading_writes (handleCreateTransition_events env st) = [True, False]
    \<and> loading_trace (handleCreateTransition_events env st) st
        = replicate (length (handleCreateTransition_events env st) - 1) True @ [False]
    \<and> length (posts (handleCreateTransition_events env st)) = 1
    \<and> \<not> loading (handleCreateTransition env st))"
proof (intro conjI impI)
  assume "file1 st \<noteq> None"
  then obtain f where f: "file1 st = Some f" by auto
  from handleAnalyze_events_shape [OF f, of env]
  obtain inner where m: "handleAnalyze_events env st = SetLoading True # inner @ [SetLoading False]"
    "loading_writes inner = []" "posts inner = [handleAnalyze_request f]" by blast
  note c = cycle [OF m(1) m(2), of st]
  show "hd (handleAnalyze_events env st) = SetLoading True" using c by blast
  show "loading_writes (handleAnalyze_events env st) = [True, False]" using c by blast
  show "loading_trace (handleAnalyze_events env st) st
        = replicate (length (handleAnalyze_events env st) - 1) True @ [False]" using c by blast
  show "length (posts (handleAnalyze_events env st)) = 1" using c m(3) by simp
  show "\<not> loading (handleAnalyze env st)" using c by (simp add: handleAnalyze_def)
next
  assume "file1 st \<noteq> None \<and> file2 st \<noteq> None"
  then obtain f1 f2 where f: "file1 st = Some f1" "file2 st = Some f2" by auto
  from handleCreateTransition_events_shape [OF f, of env]
  obtain inner where m: "handleCreateTransition_events env st = SetLoading True # inner @ [SetLoading False]"
    "loading_writes inner = []" "posts inner = [handleCreateTransition_request f1 f2 (transitionStyle st)]"
    by blast
  note c = cycle [OF m(1) m(2), of st]
  show "hd (handleCreateTransition_events env st) = SetLoading True" using c by blast
  show "loading_writes (handleCreateTransition_events env st) = [True, False]" using c by blast
  show "loading_trace (handleCreateTransition_events env st) st
        = replicate (length (handleCreateTransition_events env st) - 1) True @ [False]" using c by blast
  show "length (posts (handleCreateTransition_events env st)) = 1" using c m(3) by simp
  show "\<not> loading (handleCreateTransition env st)" using c by (simp add: handleCreateTransition_def)
qed

lemma two_files: "file1 two_files_state = Some song" "file2 two_files_state = Some intro_wav"
  "analysis two_files_state = None" "wavesurfer two_files_state" "\<not> loading two_files_state"
  "transitionStyle two_files_state = ''smooth''"
  by (simp_all add: two_files_state_def initial_state_def)

lemma one_file: "file1 one_file_state = Some song" "file2 one_file_state = None"
  "analysis one_file_state = None" "wavesurfer one_file_state" "\<not> loading one_file_state"
  by (simp_all add: one_file_state_def initial_state_def)

lemma server_error_analysis:
  "handleAnalyze_events server_error_env two_files_state =
     [SetLoading True, SetError None, Post (handleAnalyze_request song),
      SetError (Some ''Failed to analyze audio''), ConsoleError, SetLoading False]"
  by (simp add: handleAnalyze_events_def handleAnalyze_try_def two_files server_error_env_def
      settle_def Let_def)

lemma server_error_transition:
  "handleCreateTransition_events server_error_env two_files_state =
     [SetLoading True, SetError None,
      Post (handleCreateTransition_request song intro_wav ''smooth''),
      SetError (Some ''Failed to create transition''), ConsoleError, SetLoading False]"
  by (simp add: handleCreateTransition_events_def handleCreateTransition_try_def two_files
      server_error_env_def settle_def Let_def)

text \<open>
  Both workflows against a backend that answers 500: six actions each, the flag set after
  the first five.
\<close>

theorem loading_flag_cycle_witness:
  "file1 two_files_state \<noteq> None \<and> file2 two_files_state \<noteq> None
   \<and> loading_writes (handleAnalyze_events server_error_env two_files_state) = [True, False]
   \<and> loading_trace (handleAnalyze_events server_error_env two_files_state) two_files_state
       = [True, True, True, True, True, False]
   \<and> \<not> loading (handleAnalyze server_error_env two_files_state)
   \<and> loading_writes (handleCreateTransition_events server_error_env two_files_state) = [True, False]
   \<and> loading_trace (handleCreateTransition_events server_error_env two_files_state) two_files_state
       = [True, True, True, True, True, False]
   \<and> \<not> loading (handleCreateTransition server_error_env two_files_state)"
proof -
  have h: "file1 two_files_state \<noteq> None" "file2 two_files_state \<noteq> None"
    by (simp_all add: two_files)
  have n: "replicate (length (handleAnalyze_events server_error_env two_files_state) - Suc 0) True
      = [True, True, True, True, True]"
    "replicate (length (handleCreateTransition_events server_error_env two_files_state) - Suc 0) True
      = [True, True, True, True, True]"
    by (simp_all add: server_error_analysis server_error_transition numeral_eq_Suc)
  show ?thesis
    using h loading_flag_cycle [of two_files_state server_error_env] by (simp add: n)
qed


text \<open>
  C5. With the first or the second file slot empty the transition button is disabled,
  and the handler, if entered all the same, does nothing: no action, no request, the
  state as it was.
\<close>

theorem transition_guard:
  assumes "file1 st = None \<or> file2 st = None"
  shows "transition_disabled st
       \<and> handleCreateTransition_events env st = []
       \<and> posts (handleCreateTransition_events env st) = []
       \<and> handleCreateTransition env st = st"
  using assms
  by (auto simp: transition_disabled_def handleCreateTransition_def handleCreateTransition_events_def
      run_Nil split: option.splits)

text \<open>
  One file selected, and none.
\<close>

theorem transition_guard_witness:
  "(file1 one_file_state = None \<or> file2 one_file_state = None)
   \<and> transition_disabled one_file_state
   \<and> posts (handleCreateTransition_events (handlers server_error_env) one_file_state) = []
   \<and> handleCreateTransition (handlers server_error_env) one_file_state = one_file_state
   \<and> transition_disabled initial_state
   \<and> handleCreateTransition (handlers server_error_env) initial_state = initial_state"
proof -
  have h: "file1 one_file_state = None \<or> file2 one_file_state = None"
    by (simp add: one_file)
  have i: "file1 initial_state = None \<or> file2 initial_state = None"
    by (simp add: initial_state_def)
  show ?thesis
    using h transition_guard [OF h, of "handlers server_error_env"]
      transition_guard [OF i, of "handlers server_error_env"]
    by simp
qed

lemma toFixed_plain_digits:
  assumes "\<lfloor>\<bar>x\<bar> * 10 ^ f + 1 / 2\<rfloor> = int n"
  shows "toFixed_plain f x =
     (if x < 0 then ''-'' else []) @
     (if f \<noteq> 0
      then (let m2 = (if length (decimal n) \<le> f
                      then replicate (f + 1 - length (decimal n)) CHR ''0'' @ decimal n
                      else decimal n)
            in take (length m2 - f) m2 @ ''.'' @ drop (length m2 - f) m2)
      else decimal n)"
proof -
  have n: "nat \<lfloor>\<bar>x\<bar> * 10 ^ f + 1 / 2\<rfloor> = n"
    using assms by simp
  show ?thesis
    unfolding toFixed_plain_def Let_def n by simp
qed

lemma decimal_1200: "decimal 1200 = ''1200''"
  by (simp add: decimal.simps digit_char_def)

lemma decimal_80: "decimal 80 = ''80''"
  by (simp add: decimal.simps digit_char_def)

lemma decimal_200000: "decimal 200000 = ''200000''"
  by (simp add: decimal.simps digit_char_def)

lemma tempo_fixed: "toFixed T 1 (Finite 120) = ''120.0''"
proof -
  have "\<lfloor>\<bar>120 :: rat\<bar> * 10 ^ 1 + 1 / 2\<rfloor> = int 1200"
    by (rule floor_unique) simp_all
  from toFixed_plain_digits [OF this] show ?thesis
    by (simp add: toFixed_def decimal_1200)
qed

lemma energy_fixed: "toFixed T 2 (Finite (3602879701896397 / 4503599627370496)) = ''0.80''"
proof -
  have "\<lfloor>\<bar>3602879701896397 / 4503599627370496 :: rat\<bar> * 10 ^ 2 + 1 / 2\<rfloor> = int 80"
    by (rule floor_unique) simp_all
  from toFixed_plain_digits [OF this] show ?thesis
    by (simp add: toFixed_def decimal_80)
qed

lemma centroid_fixed: "toFixed T 2 (Finite 2000) = ''2000.00''"
proof -
  have "\<lfloor>\<bar>2000 :: rat\<bar> * 10 ^ 2 + 1 / 2\<rfloor> = int 200000"
    by (rule floor_unique) simp_all
  from toFixed_plain_digits [OF this] show ?thesis
    by (simp add: toFixed_def decimal_200000)
qed

lemma render_mock_analysis:
  "analysis s = Some mock_analysis \<Longrightarrow>
   render_analysis T s =
     [''Analysis Results'', ''Key: C major'', ''Tempo: 120.0 BPM'', ''Energy: 0.80'',
      ''Spectral Centroid: 2000.00 Hz'']"
  using tempo_fixed [of T] energy_fixed [of T] centroid_fixed [of T]
  by (simp add: render_analysis_def mock_analysis_def)

lemma handlers_answer:
  "net_analysis (handlers env) (handleAnalyze_request f) = Response 200 (JsonAnalysis mock_analysis)"
  by (simp add: handlers_def mock_analyze_handler_def handleAnalyze_request_def axios_post_def
      buildFullPath_def Let_def)

text \<open>
  C4. The mock service layer answers the component's analysis request with status 200 and
  the fixed payload. A run of the analysis workflow against it sends that one request,
  stores the payload, and shows the key line \<open>Key: C major\<close> and the tempo line
  \<open>Tempo: 120.0 BPM\<close>.
\<close>

theorem mock_analysis_displayed:
  assumes "file1 st = Some f"
  shows "net_analysis (handlers env) (handleAnalyze_request f) = Response 200 (JsonAnalysis mock_analysis)
       \<and> posts (handleAnalyze_events (handlers env) st) = [handleAnalyze_request f]
       \<and> analysis (handleAnalyze (handlers env) st) = Some mock_analysis
       \<and> render_analysis T (handleAnalyze (handlers env) st)
           = [''Analysis Results'', ''Key: C major'', ''Tempo: 120.0 BPM'', ''Energy: 0.80'',
              ''Spectral Centroid: 2000.00 Hz'']"
proof -
  have s: "settle (net_analysis (handlers env) (handleAnalyze_request f))
      = Inr (JsonAnalysis mock_analysis)"
    by (simp add: handlers_answer settle_def)
  have a: "analysis (handleAnalyze (handlers env) st) = Some mock_analysis"
    using assms s by (simp add: handleAnalyze_result Let_def)
  obtain inner where m:
    "handleAnalyze_events (handlers env) st = SetLoading True # inner @ [SetLoading False]"
    "posts inner = [handleAnalyze_request f]"
    using handleAnalyze_events_shape [OF assms, of "handlers env"] by blast
  have p: "posts (handleAnalyze_events (handlers env) st) = [handleAnalyze_request f]"
    by (simp add: m posts_append)
  show ?thesis
    using a p render_mock_analysis [OF a, of T] by (simp add: handlers_answer)
qed

text \<open>
  The run from the state with one file selected: the lines are shown and no error is.
\<close>

theorem mock_analysis_displayed_witness:
  "file1 one_file_state = Some song
   \<and> analysis (handleAnalyze (handlers server_error_env) one_file_state) = Some mock_analysis
   \<and> render_analysis ToString_sample (handleAnalyze (handlers server_error_env) one_file_state) ! 2
       = ''Tempo: 120.0 BPM''
   \<and> render_analysis ToString_sample (handleAnalyze (handlers server_error_env) one_file_state) ! 1
       = ''Key: C major''
   \<and> render_error (handleAnalyze (handlers server_error_env) one_file_state) = []"
proof -
  have h: "file1 one_file_state = Some song"
    by (simp add: one_file)
  have ev: "handleAnalyze_events (handlers server_error_env) one_file_state =
     [SetLoading True, SetError None, Post (handleAnalyze_request song), SetAnalysis (Some mock_analysis),
      AddMarker \<lparr> time = Finite (1 / 2), color = ''#ff0000'', position = ''top'' \<rparr>,
      AddMarker \<lparr> time = Finite 1, color = ''#ff0000'', position = ''top'' \<rparr>,
      AddMarker \<lparr> time = Finite (3 / 2), color = ''#ff0000'', position = ''top'' \<rparr>,
      AddMarker \<lparr> time = Finite 2, color = ''#ff0000'', position = ''top'' \<rparr>,
      SetLoading False]"
    by (simp add: handleAnalyze_events_def handleAnalyze_try_def one_file handlers_answer settle_def
        Let_def mock_analysis_def)
       (simp add: handlers_def server_error_env_def)
  have e: "render_error (handleAnalyze (handlers server_error_env) one_file_state) = []"
    unfolding handleAnalyze_def ev
    by (simp add: run_def render_error_def one_file_state_def initial_state_def)
  show ?thesis
    using h e mock_analysis_displayed [OF h, of "server_error_env" ToString_sample] by simp
qed


section \<open>The audio processor: errors of the analysis workflow\<close>

lemma no_markers_answer:
  "net_analysis no_markers_env (handleAnalyze_request f) = Response 200 (JsonAnalysis mock_analysis)"
  by (simp add: no_markers_env_def handlers_answer)

lemma no_markers_try:
  "handleAnalyze_try no_markers_env one_file_state song =
     ([Post (handleAnalyze_request song), SetAnalysis (Some mock_analysis),
       AddMarker \<lparr> time = Finite (1 / 2), color = ''#ff0000'', position = ''top'' \<rparr>], True)"
  by (simp add: handleAnalyze_try_def no_markers_answer settle_def one_file Let_def mock_analysis_def)
     (simp add: no_markers_env_def handlers_def)

text \<open>
  C3, as stated, fails for an exception thrown after the response has been stored. The
  \<^verbatim>\<open>try\<close> block calls \<^verbatim>\<open>setAnalysis\<close> and then draws the beats; when the widget's
  \<^verbatim>\<open>addMarker\<close> throws, the error message is set and the stored analysis is already the
  new one.
\<close>

theorem analysis_replaced_before_marker_error:
  "file1 one_file_state = Some song
   \<and> snd (handleAnalyze_try no_markers_env one_file_state song)
   \<and> error (handleAnalyze no_markers_env one_file_state) = Some ''Failed to analyze audio''
   \<and> analysis (handleAnalyze no_markers_env one_file_state) \<noteq> analysis one_file_state"
proof -
  have s: "settle (net_analysis no_markers_env (handleAnalyze_request song))
      = Inr (JsonAnalysis mock_analysis)"
    by (simp add: no_markers_answer settle_def)
  show ?thesis
    by (simp add: handleAnalyze_result [of one_file_state song] one_file no_markers_try s Let_def)
qed

text \<open>When the \<^verbatim>\<open>try\<close> block throws: the request fails, or something is thrown after it.\<close>

lemma try_threw_iff:
  "snd (handleAnalyze_try env st f) =
     (case settle (net_analysis env (handleAnalyze_request f)) of
        Inl e \<Rightarrow> True
      | Inr EmptyString \<Rightarrow> False
      | Inr JsonNull \<Rightarrow> wavesurfer st
      | Inr (JsonAnalysis a) \<Rightarrow> wavesurfer st \<and> snd (addMarkers env (beats a)))"
  by (simp add: handleAnalyze_try_def Let_def split: sum.splits analysis_body.splits prod.splits)

text \<open>
  C3, amended. Every error thrown during the analysis workflow (the request fails, the
  beats of a \<^verbatim>\<open>null\<close> body are read, or the widget throws while the beats are drawn) sets
  the error message to exactly \<open>Failed to analyze audio\<close>, which is then shown, and leaves
  the selected files as they were. When the request itself fails (no response, or a
  status outside 200..299) the stored analysis is unchanged as well; when the exception
  is thrown after a response has arrived, the stored analysis is that response's body,
  whatever was stored before. In particular, from a state with no stored analysis a 500
  response leads to a state that shows the error string and no analysis field.
\<close>

theorem analysis_error_handling:
  "(file1 st = Some f \<and> snd (handleAnalyze_try env st f) \<longrightarrow>
      error (handleAnalyze env st) = Some ''Failed to analyze audio''
    \<and> render_error (handleAnalyze env st) = [''Failed to analyze audio'']
    \<and> file1 (handleAnalyze env st) = file1 st
    \<and> file2 (handleAnalyze env st) = file2 st)
 \<and> (file1 st = Some f \<and> isl (settle (net_analysis env (handleAnalyze_request f))) \<longrightarrow>
      snd (handleAnalyze_try env st f)
    \<and> analysis (handleAnalyze env st) = analysis st)
 \<and> (file1 st = Some f \<and> snd (handleAnalyze_try env st f)
      \<and> settle (net_analysis env (handleAnalyze_request f)) = Inr d \<longrightarrow>
      analysis (handleAnalyze env st) = stored d)
 \<and> (file1 st = Some f \<and> wavesurfer st
      \<and> net_analysis env (handleAnalyze_request f) = Response 200 JsonNull \<longrightarrow>
      snd (handleAnalyze_try env st f))
 \<and> (file1 st = Some f \<and> analysis st = None
      \<and> net_analysis env (handleAnalyze_request f) = Response 500 b \<longrightarrow>
      render_error (handleAnalyze env st) = [''Failed to analyze audio'']
    \<and> render_analysis T (handleAnalyze env st) = [])"
proof (intro conjI impI)
  assume "file1 st = Some f \<and> snd (handleAnalyze_try env st f)"
  then show "error (handleAnalyze env st) = Some ''Failed to analyze audio''"
    "render_error (handleAnalyze env st) = [''Failed to analyze audio'']"
    "file1 (handleAnalyze env st) = file1 st"
    "file2 (handleAnalyze env st) = file2 st"
    by (simp_all add: handleAnalyze_result Let_def render_error_def split: sum.splits)
next
  assume a: "file1 st = Some f \<and> isl (settle (net_analysis env (handleAnalyze_request f)))"
  then show "snd (handleAnalyze_try env st f)" by (simp add: try_threw)
  with a show "analysis (handleAnalyze env st) = analysis st"
    by (auto simp add: handleAnalyze_result Let_def split: sum.splits)
next
  assume "file1 st = Some f \<and> snd (handleAnalyze_try env st f)
      \<and> settle (net_analysis env (handleAnalyze_request f)) = Inr d"
  then show "analysis (handleAnalyze env st) = stored d"
    by (simp add: handleAnalyze_result Let_def)
next
  assume "file1 st = Some f \<and> wavesurfer st
      \<and> net_analysis env (handleAnalyze_request f) = Response 200 JsonNull"
  then show "snd (handleAnalyze_try env st f)"
    by (simp add: try_threw_iff settle_def)
next
  assume a: "file1 st = Some f \<and> analysis st = None
      \<and> net_analysis env (handleAnalyze_request f) = Response 500 b"
  then have i: "settle (net_analysis env (handleAnalyze_request f)) = Inl (BadStatus 500)"
    by (simp add: settle_def)
  then have "snd (handleAnalyze_try env st f)" by (simp add: try_threw)
  with a i show "render_error (handleAnalyze env st) = [''Failed to analyze audio'']"
    "render_analysis T (handleAnalyze env st) = []"
    by (simp_all add: handleAnalyze_result Let_def render_error_def render_analysis_def)
qed

text \<open>
  One file selected and nothing stored, against a backend that answers 500, against one
  that answers 200 with the body \<^verbatim>\<open>null\<close>, and against the mock service layer with a
  widget whose \<^verbatim>\<open>addMarker\<close> throws.
\<close>

theorem analysis_error_handling_witness:
  "file1 one_file_state = Some song
   \<and> analysis one_file_state = None
   \<and> wavesurfer one_file_state
   \<and> net_analysis server_error_env (handleAnalyze_request song) = Response 500 EmptyString
   \<and> isl (settle (net_analysis server_error_env (handleAnalyze_request song)))
   \<and> snd (handleAnalyze_try server_error_env one_file_state song)
   \<and> error (handleAnalyze server_error_env one_file_state) = Some ''Failed to analyze audio''
   \<and> analysis (handleAnalyze server_error_env one_file_state) = None
   \<and> file1 (handleAnalyze server_error_env one_file_state) = Some song
   \<and> render_error (handleAnalyze server_error_env one_file_state) = [''Failed to analyze audio'']
   \<and> render_analysis ToString_sample (handleAnalyze server_error_env one_file_state) = []
   \<and> net_analysis null_body_env (handleAnalyze_request song) = Response 200 JsonNull
   \<and> snd (handleAnalyze_try null_body_env one_file_state song)
   \<and> error (handleAnalyze null_body_env one_file_state) = Some ''Failed to analyze audio''
   \<and> analysis (handleAnalyze null_body_env one_file_state) = None
   \<and> settle (net_analysis no_markers_env (handleAnalyze_request song)) = Inr (JsonAnalysis mock_analysis)
   \<and> snd (handleAnalyze_try no_markers_env one_file_state song)
   \<and> error (handleAnalyze no_markers_env one_file_state) = Some ''Failed to analyze audio''
   \<and> analysis (handleAnalyze no_markers_env one_file_state) = Some mock_analysis"
proof -
  have r: "net_analysis server_error_env (handleAnalyze_request song) = Response 500 EmptyString"
    by (simp add: server_error_env_def)
  have i: "isl (settle (net_analysis server_error_env (handleAnalyze_request song)))"
    by (simp add: r settle_def)
  have n: "net_analysis null_body_env (handleAnalyze_request song) = Response 200 JsonNull"
    by (simp add: null_body_env_def)
  have ns: "settle (net_analysis null_body_env (handleAnalyze_request song)) = Inr JsonNull"
    by (simp add: n settle_def)
  have m: "settle (net_analysis no_markers_env (handleAnalyze_request song))
      = Inr (JsonAnalysis mock_analysis)"
    by (simp add: no_markers_answer settle_def)
  have mt: "snd (handleAnalyze_try no_markers_env one_file_state song)"
    by (simp add: no_markers_try)
  show ?thesis
    using analysis_error_handling [of one_file_state song server_error_env EmptyString EmptyString ToString_sample]
      analysis_error_handling [of one_file_state song null_body_env JsonNull EmptyString ToString_sample]
      analysis_error_handling [of one_file_state song no_markers_env "JsonAnalysis mock_analysis"
        EmptyString ToString_sample]
      r i n ns m mt
    by (simp add: one_file)
qed

section \<open>The API client: form fields and the backend host\<close>

text \<open>
  C9, as stated, fails for a duration of zero: it is provided, and the request carries
  no \<open>duration\<close> field, because the field is added under a test of truthiness.
\<close>

theorem zero_duration_not_sent:
  "duration zero_duration \<noteq> None
   \<and> map fst (req_data (createTransition_request ToString_sample None song intro_wav zero_duration))
       = [''file1'', ''file2'', ''style'']"
  by (simp add: zero_duration_def createTransition_request_def createTransition_formData_def
      api_post_def append_def)

text \<open>
  C9, amended. For every pair of files and every settings value the request of
  \<^verbatim>\<open>createTransition\<close> carries the fields \<open>file1\<close>, \<open>file2\<close> and \<open>style\<close>, in this order,
  followed by the field \<open>duration\<close> exactly when the settings provide a duration that is
  truthy (neither zero nor NaN), and no other field.
\<close>

theorem createTransition_fields:
  "req_data (createTransition_request ToString env f1 f2 settings) =
     [(''file1'', FileValue f1), (''file2'', FileValue f2), (''style'', StringValue (style settings))]
     @ (case duration settings of
          None \<Rightarrow> []
        | Some d \<Rightarrow> if truthy_number d then [(''duration'', StringValue (ToString d))] else [])
   \<and> map fst (req_data (createTransition_request ToString env f1 f2 settings)) =
       (if (case duration settings of None \<Rightarrow> False | Some d \<Rightarrow> truthy_number d)
        then [''file1'', ''file2'', ''style'', ''duration'']
        else [''file1'', ''file2'', ''style''])"
  by (simp add: createTransition_request_def createTransition_formData_def api_post_def append_def
      split: option.splits)

text \<open>
  A duration of four seconds is sent; an absent one and NaN are not.
\<close>

theorem createTransition_fields_witness:
  "map fst (req_data (createTransition_request ToString_sample None song intro_wav
       \<lparr> style = ''harmonic'', duration = Some (Finite 4), crossfade = None \<rparr>))
     = [''file1'', ''file2'', ''style'', ''duration'']
   \<and> map fst (req_data (createTransition_request ToString_sample None song intro_wav
       \<lparr> style = ''harmonic'', duration = None, crossfade = None \<rparr>))
     = [''file1'', ''file2'', ''style'']
   \<and> map fst (req_data (createTransition_request ToString_sample None song intro_wav
       \<lparr> style = ''harmonic'', duration = Some NaN, crossfade = None \<rparr>))
     = [''file1'', ''file2'', ''style'']"
  using createTransition_fields [of ToString_sample None song intro_wav
      "\<lparr> style = ''harmonic'', duration = Some (Finite 4), crossfade = None \<rparr>"]
    createTransition_fields [of ToString_sample None song intro_wav
      "\<lparr> style = ''harmonic'', duration = None, crossfade = None \<rparr>"]
    createTransition_fields [of ToString_sample None song intro_wav
      "\<lparr> style = ''harmonic'', duration = Some NaN, crossfade = None \<rparr>"]
  by simp

text \<open>
  The three functions of the API client call the address made of the configured base URL
  and their path.
\<close>

lemma api_requests_use_base_url:
  "req_url (analyzeTrack_request env f) = combineURLs (API_BASE_URL env) ''/api/analyze/track''"
  "req_url (createTransition_request T env f1 f2 s) = combineURLs (API_BASE_URL env) ''/api/transition/create''"
  "req_url (transferStyle_request T env f ss) = combineURLs (API_BASE_URL env) ''/api/style/transfer''"
  by (auto simp: analyzeTrack_request_def createTransition_request_def transferStyle_request_def
      api_post_def buildFullPath_def isAbsoluteURL_def API_BASE_URL_def is_letter_def Let_def
      split: option.splits)

text \<open>
  C1. The claim is that every analysis, transition or style-transfer request goes to the
  host selected by the base-URL environment variable. The API client does that; the audio
  processor component does not. With the variable set to \<open>https://api.sonetra.example\<close>,
  the client's analysis request goes to that host, while the requests the component sends
  for an analysis and for a transition go to \<open>http://localhost:8000\<close>, the address written
  into the component.
\<close>

theorem component_host_is_fixed:
  "API_BASE_URL (Some production_url) = ''https://api.sonetra.example''
   \<and> url_origin (req_url (analyzeTrack_request (Some production_url) song))
       = ''https://api.sonetra.example''
   \<and> posts (handleAnalyze_events server_error_env two_files_state)
       = [handleAnalyze_request song]
   \<and> url_origin (req_url (handleAnalyze_request song)) = ''http://localhost:8000''
   \<and> posts (handleCreateTransition_events server_error_env two_files_state)
       = [handleCreateTransition_request song intro_wav ''smooth'']
   \<and> url_origin (req_url (handleCreateTransition_request song intro_wav ''smooth''))
       = ''http://localhost:8000''"
  by (simp add: server_error_analysis server_error_transition)
     (simp add: production_url_def API_BASE_URL_def analyzeTrack_request_def api_post_def
      buildFullPath_def isAbsoluteURL_def is_letter_def combineURLs_def url_origin_def
      handleAnalyze_request_def handleCreateTransition_request_def axios_post_def Let_def)


end
